theory Spec2Isabelle
  imports Main "HOL-Library.AList" "HOL-Library.Char_ord" "HOL-Library.List_Lexorder"
begin

section \<open>Values of the host language\<close>

text \<open>
  The record gateway (\<^verbatim>\<open>src/unnamed/part_000\<close>) is a set of asynchronous functions
  around a remote client. What the client hands back is untyped at run time (the
  interfaces of \<^verbatim>\<open>src/lib/supabase.ts\<close> are erased), so rows, errors and partial
  updates are JSON values. An object is an association list in property order.
\<close>

datatype jsval =
    JUndefined
  | JNull
  | JBool bool
  | JNum int
  | JStr string
  | JArr "jsval list"
  | JObj "(string \<times> jsval) list"

text \<open>The only exception the gateway's own code can raise: a property read on
  \<^verbatim>\<open>null\<close>/\<^verbatim>\<open>undefined\<close>, or a call of something that is not a function.\<close>

datatype exn = TypeError

text \<open>Truthiness, as tested by \<^verbatim>\<open>if (error)\<close> and by \<^verbatim>\<open>a || b\<close>.\<close>

fun truthy :: "jsval \<Rightarrow> bool" where
  "truthy JUndefined = False"
| "truthy JNull = False"
| "truthy (JBool b) = b"
| "truthy (JNum n) = (n \<noteq> 0)"
| "truthy (JStr s) = (s \<noteq> [])"
| "truthy (JArr xs) = True"
| "truthy (JObj ps) = True"

text \<open>\<^verbatim>\<open>a || b\<close>\<close>

definition js_or :: "jsval \<Rightarrow> jsval \<Rightarrow> jsval" where
  "js_or a b = (if truthy a then a else b)"

text \<open>A property read on an object: \<^verbatim>\<open>undefined\<close> when the object has no such
  property.\<close>

definition obj_get :: "(string \<times> jsval) list \<Rightarrow> string \<Rightarrow> jsval" where
  "obj_get ps k = (case map_of ps k of None \<Rightarrow> JUndefined | Some v \<Rightarrow> v)"

text \<open>\<^verbatim>\<open>v.k\<close> for the property names the gateway reads (\<^verbatim>\<open>patients\<close>, \<^verbatim>\<open>name\<close>,
  \<^verbatim>\<open>path\<close>, \<^verbatim>\<open>storage_path\<close>, \<^verbatim>\<open>signedUrl\<close>, \<^verbatim>\<open>patient_id\<close>): none of them is a
  built-in property of a string, number, boolean or array, so there the read gives
  \<^verbatim>\<open>undefined\<close>.\<close>

fun get_prop :: "jsval \<Rightarrow> string \<Rightarrow> exn + jsval" where
  "get_prop JUndefined k = Inl TypeError"
| "get_prop JNull k = Inl TypeError"
| "get_prop (JObj ps) k = Inr (obj_get ps k)"
| "get_prop v k = Inr JUndefined"

text \<open>\<^verbatim>\<open>v?.k\<close>\<close>

fun opt_get_prop :: "jsval \<Rightarrow> string \<Rightarrow> jsval" where
  "opt_get_prop (JObj ps) k = obj_get ps k"
| "opt_get_prop v k = JUndefined"

text \<open>Decimal rendering of a non-negative integer, as a template literal does.\<close>

definition digit_char :: "nat \<Rightarrow> char" where
  "digit_char d = ''0123456789'' ! d"

function string_of_nat :: "nat \<Rightarrow> string" where
  "string_of_nat n =
     (if n < 10 then [digit_char n] else string_of_nat (n div 10) @ [digit_char (n mod 10)])"
  by pat_completeness auto
termination
  by (relation "measure id") auto

declare string_of_nat.simps [simp del]

text \<open>Own enumerable properties, as copied by \<^verbatim>\<open>{...v}\<close>: those of an object, the
  indices of an array or of a string, none for the other values.\<close>

fun spread :: "jsval \<Rightarrow> (string \<times> jsval) list" where
  "spread (JObj ps) = ps"
| "spread (JArr xs) = zip (map string_of_nat [0..<length xs]) xs"
| "spread (JStr s) = zip (map string_of_nat [0..<length s]) (map (\<lambda>c. JStr [c]) s)"
| "spread v = []"

text \<open>\<^verbatim>\<open>xs.map(f)\<close> with a callback that may throw: the first exception ends the loop.\<close>

fun map_exn :: "('a \<Rightarrow> exn + 'b) \<Rightarrow> 'a list \<Rightarrow> exn + 'b list" where
  "map_exn f [] = Inr []"
| "map_exn f (x # xs) =
     (case f x of
        Inl e \<Rightarrow> Inl e
      | Inr y \<Rightarrow> (case map_exn f xs of Inl e \<Rightarrow> Inl e | Inr ys \<Rightarrow> Inr (y # ys)))"

text \<open>\<^verbatim>\<open>v?.map(f)\<close>: \<^verbatim>\<open>undefined\<close> on \<^verbatim>\<open>null\<close>/\<^verbatim>\<open>undefined\<close>, the mapped array on an
  array; any other JSON value has no \<^verbatim>\<open>map\<close> method, and calling it throws.\<close>

fun opt_map :: "(jsval \<Rightarrow> exn + jsval) \<Rightarrow> jsval \<Rightarrow> exn + jsval" where
  "opt_map f JUndefined = Inr JUndefined"
| "opt_map f JNull = Inr JUndefined"
| "opt_map f (JArr xs) = (case map_exn f xs of Inl e \<Rightarrow> Inl e | Inr ys \<Rightarrow> Inr (JArr ys))"
| "opt_map f v = Inl TypeError"

section \<open>The remote client\<close>

text \<open>The browser's \<^verbatim>\<open>File\<close>: the gateway reads its name, MIME type and size and
  passes the whole object to the storage upload.\<close>

record File =
  file_name :: string
  file_type :: string
  file_size :: nat
  file_bytes :: "nat list"

text \<open>
  One constructor per call chain the gateway builds on the client.
  \<^item> \<open>Select t cols flt ord one\<close>: \<^verbatim>\<open>from(t).select(cols)\<close>, then \<^verbatim>\<open>.eq(k, v)\<close> when
    \<open>flt = Some (k, v)\<close>, \<^verbatim>\<open>.order(f, { ascending: a })\<close> when \<open>ord = Some (f, a)\<close>,
    \<^verbatim>\<open>.single()\<close> when \<open>one\<close>;
  \<^item> \<open>Insert t rows\<close>: \<^verbatim>\<open>from(t).insert(rows).select().single()\<close>;
  \<^item> \<open>Update t obj (k, v)\<close>: \<^verbatim>\<open>from(t).update(obj).eq(k, v).select().single()\<close>;
  \<^item> \<open>Delete t (k, v)\<close>: \<^verbatim>\<open>from(t).delete().eq(k, v)\<close>;
  \<^item> \<open>Rpc f args\<close>: \<^verbatim>\<open>rpc(f, args)\<close>;
  \<^item> \<open>StorageUpload b key file\<close>, \<open>StorageRemove b keys\<close>, \<open>CreateSignedUrl b key secs\<close>:
    \<^verbatim>\<open>storage.from(b)\<close> followed by \<^verbatim>\<open>upload\<close>, \<^verbatim>\<open>remove\<close>, \<^verbatim>\<open>createSignedUrl\<close>.
\<close>

datatype request =
    Select string string "(string \<times> string) option" "(string \<times> bool) option" bool
  | Insert string "jsval list"
  | Update string jsval "string \<times> string"
  | Delete string "string \<times> string"
  | Rpc string jsval
  | StorageUpload string string File
  | StorageRemove string "jsval list"
  | CreateSignedUrl string string nat

text \<open>Every call resolves to an object with a \<^verbatim>\<open>data\<close> and an \<^verbatim>\<open>error\<close> property.\<close>

record response =
  data :: jsval
  error :: jsval

text \<open>The client itself is not part of the repository: it is a parameter, a function
  from a request and the state of the remote side to a response and the next state.\<close>

type_synonym 'w client = "request \<Rightarrow> 'w \<Rightarrow> response \<times> 'w"

text \<open>What a gateway function can touch: the remote side (only through the client),
  and the diagnostic channel \<^verbatim>\<open>console.error\<close>. \<open>calls\<close> records the requests
  issued, in order.\<close>

record 'w st =
  world :: 'w
  calls :: "request list"
  console :: "(string \<times> jsval) list"

definition await :: "'w client \<Rightarrow> request \<Rightarrow> 'w st \<Rightarrow> response \<times> 'w st" where
  "await client rq s =
     (let (r, w') = client rq (world s)
      in (r, s\<lparr>world := w', calls := calls s @ [rq]\<rparr>))"

definition console_error :: "string \<Rightarrow> jsval \<Rightarrow> 'w st \<Rightarrow> 'w st" where
  "console_error msg e s = s\<lparr>console := console s @ [(msg, e)]\<rparr>"

section \<open>Patient functions\<close>

text \<open>
  Every function takes the client and the state before the call, and returns what the
  promise settles to (\<open>Inl\<close>: rejected with an exception, \<open>Inr\<close>: resolved with a
  value) together with the state after it. The functions that read the clock take the
  reading as an argument: \<open>now\<close> is the value of \<^verbatim>\<open>new Date().toISOString()\<close>,
  \<open>now_ms\<close> that of \<^verbatim>\<open>Date.now()\<close>.
\<close>

definition getPatients_request :: request where
  "getPatients_request = Select ''patients'' ''*'' None (Some (''created_at'', False)) False"

definition getPatients :: "'w client \<Rightarrow> 'w st \<Rightarrow> (exn + jsval) \<times> 'w st" where
  "getPatients client s =
     (let (r, s1) = await client getPatients_request s
      in if truthy (error r)
         then (Inr (JArr []), console_error ''Error fetching patients:'' (error r) s1)
         else (Inr (js_or (data r) (JArr [])), s1))"

definition getPatientById_request :: "string \<Rightarrow> request" where
  "getPatientById_request id' = Select ''patients'' ''*'' (Some (''id'', id')) None True"

definition getPatientById :: "'w client \<Rightarrow> string \<Rightarrow> 'w st \<Rightarrow> (exn + jsval) \<times> 'w st" where
  "getPatientById client id' s =
     (let (r, s1) = await client (getPatientById_request id') s
      in if truthy (error r)
         then (Inr JNull, console_error ''Error fetching patient:'' (error r) s1)
         else (Inr (data r), s1))"

definition createPatient_request :: "(string \<times> jsval) list \<Rightarrow> request" where
  "createPatient_request patient = Insert ''patients'' [JObj patient]"

definition createPatient ::
  "'w client \<Rightarrow> (string \<times> jsval) list \<Rightarrow> 'w st \<Rightarrow> (exn + jsval) \<times> 'w st" where
  "createPatient client patient s =
     (let (r, s1) = await client (createPatient_request patient) s
      in if truthy (error r)
         then (Inr JNull, console_error ''Error creating patient:'' (error r) s1)
         else (Inr (data r), s1))"

text \<open>\<^verbatim>\<open>{ ...updates, updated_at: now }\<close>: a property of \<open>updates\<close> with that name keeps
  its place and takes the new value, otherwise the property is added last.\<close>

definition stamped :: "(string \<times> jsval) list \<Rightarrow> string \<Rightarrow> (string \<times> jsval) list" where
  "stamped updates now = AList.update ''updated_at'' (JStr now) (spread (JObj updates))"

definition updatePatient_request :: "string \<Rightarrow> (string \<times> jsval) list \<Rightarrow> string \<Rightarrow> request" where
  "updatePatient_request id' updates now =
     Update ''patients'' (JObj (stamped updates now)) (''id'', id')"

definition updatePatient ::
  "'w client \<Rightarrow> string \<Rightarrow> string \<Rightarrow> (string \<times> jsval) list \<Rightarrow> 'w st \<Rightarrow> (exn + jsval) \<times> 'w st"
where
  "updatePatient client now id' updates s =
     (let (r, s1) = await client (updatePatient_request id' updates now) s
      in if truthy (error r)
         then (Inr JNull, console_error ''Error updating patient:'' (error r) s1)
         else (Inr (data r), s1))"

definition deletePatient_request :: "string \<Rightarrow> request" where
  "deletePatient_request id' = Delete ''patients'' (''id'', id')"

definition deletePatient :: "'w client \<Rightarrow> string \<Rightarrow> 'w st \<Rightarrow> (exn + jsval) \<times> 'w st" where
  "deletePatient client id' s =
     (let (r, s1) = await client (deletePatient_request id') s
      in if truthy (error r)
         then (Inr (JBool False), console_error ''Error deleting patient:'' (error r) s1)
         else (Inr (JBool True), s1))"

section \<open>Medical history functions\<close>

definition getMedicalHistory_request :: "string \<Rightarrow> request" where
  "getMedicalHistory_request patientId =
     Select ''medical_history'' ''*'' (Some (''patient_id'', patientId)) (Some (''date'', False)) False"

definition getMedicalHistory :: "'w client \<Rightarrow> string \<Rightarrow> 'w st \<Rightarrow> (exn + jsval) \<times> 'w st" where
  "getMedicalHistory client patientId s =
     (let (r, s1) = await client (getMedicalHistory_request patientId) s
      in if truthy (error r)
         then (Inr (JArr []), console_error ''Error fetching medical history:'' (error r) s1)
         else (Inr (js_or (data r) (JArr [])), s1))"

definition addMedicalHistory_request :: "(string \<times> jsval) list \<Rightarrow> request" where
  "addMedicalHistory_request history = Insert ''medical_history'' [JObj history]"

definition increment_request :: "(string \<times> jsval) list \<Rightarrow> request" where
  "increment_request history =
     Rpc ''increment_patient_treatments'' (JObj [(''patient_id'', obj_get history ''patient_id'')])"

text \<open>The result of the second call is awaited and dropped.\<close>

definition addMedicalHistory ::
  "'w client \<Rightarrow> (string \<times> jsval) list \<Rightarrow> 'w st \<Rightarrow> (exn + jsval) \<times> 'w st" where
  "addMedicalHistory client history s =
     (let (r, s1) = await client (addMedicalHistory_request history) s
      in if truthy (error r)
         then (Inr JNull, console_error ''Error adding medical history:'' (error r) s1)
         else (let (r2, s2) = await client (increment_request history) s1
               in (Inr (data r), s2)))"

section \<open>Appointments functions\<close>

text \<open>The argument of \<^verbatim>\<open>select\<close> is the template string of the source as it is
  written there, over four lines: a line feed, six spaces and \<^verbatim>\<open>*,\<close>, a line feed, six
  spaces and \<^verbatim>\<open>patients!inner(name)\<close>, a line feed and four spaces.\<close>

definition appointments_columns :: string where
  "appointments_columns =
     [CHR 0x0A] @ ''      *,'' @ [CHR 0x0A] @ ''      patients!inner(name)'' @
     [CHR 0x0A] @ ''    ''"

definition getAppointments_request :: request where
  "getAppointments_request =
     Select ''appointments'' appointments_columns None (Some (''date'', True)) False"

text \<open>The callback \<^verbatim>\<open>(apt) => ({ ...apt, patientName: apt.patients.name })\<close>.\<close>

definition with_patientName :: "jsval \<Rightarrow> exn + jsval" where
  "with_patientName apt =
     (let copied = spread apt
      in case get_prop apt ''patients'' of
           Inl e \<Rightarrow> Inl e
         | Inr p \<Rightarrow>
             (case get_prop p ''name'' of
                Inl e \<Rightarrow> Inl e
              | Inr n \<Rightarrow> Inr (JObj (AList.update ''patientName'' n copied))))"

definition getAppointments :: "'w client \<Rightarrow> 'w st \<Rightarrow> (exn + jsval) \<times> 'w st" where
  "getAppointments client s =
     (let (r, s1) = await client getAppointments_request s
      in if truthy (error r)
         then (Inr (JArr []), console_error ''Error fetching appointments:'' (error r) s1)
         else (case opt_map with_patientName (data r) of
                 Inl e \<Rightarrow> (Inl e, s1)
               | Inr v \<Rightarrow> (Inr (js_or v (JArr [])), s1)))"

definition createAppointment_request :: "(string \<times> jsval) list \<Rightarrow> request" where
  "createAppointment_request appointment = Insert ''appointments'' [JObj appointment]"

definition createAppointment ::
  "'w client \<Rightarrow> (string \<times> jsval) list \<Rightarrow> 'w st \<Rightarrow> (exn + jsval) \<times> 'w st" where
  "createAppointment client appointment s =
     (let (r, s1) = await client (createAppointment_request appointment) s
      in if truthy (error r)
         then (Inr JNull, console_error ''Error creating appointment:'' (error r) s1)
         else (Inr (data r), s1))"

definition updateAppointment_request ::
  "string \<Rightarrow> (string \<times> jsval) list \<Rightarrow> string \<Rightarrow> request" where
  "updateAppointment_request id' updates now =
     Update ''appointments'' (JObj (stamped updates now)) (''id'', id')"

definition updateAppointment ::
  "'w client \<Rightarrow> string \<Rightarrow> string \<Rightarrow> (string \<times> jsval) list \<Rightarrow> 'w st \<Rightarrow> (exn + jsval) \<times> 'w st"
where
  "updateAppointment client now id' updates s =
     (let (r, s1) = await client (updateAppointment_request id' updates now) s
      in if truthy (error r)
         then (Inr JNull, console_error ''Error updating appointment:'' (error r) s1)
         else (Inr (data r), s1))"

definition deleteAppointment_request :: "string \<Rightarrow> request" where
  "deleteAppointment_request id' = Delete ''appointments'' (''id'', id')"

definition deleteAppointment :: "'w client \<Rightarrow> string \<Rightarrow> 'w st \<Rightarrow> (exn + jsval) \<times> 'w st" where
  "deleteAppointment client id' s =
     (let (r, s1) = await client (deleteAppointment_request id') s
      in if truthy (error r)
         then (Inr (JBool False), console_error ''Error deleting appointment:'' (error r) s1)
         else (Inr (JBool True), s1))"

section \<open>Patient files functions\<close>

definition getPatientFiles_request :: "string \<Rightarrow> request" where
  "getPatientFiles_request patientId =
     Select ''patient_files'' ''*'' (Some (''patient_id'', patientId))
       (Some (''upload_date'', False)) False"

definition getPatientFiles :: "'w client \<Rightarrow> string \<Rightarrow> 'w st \<Rightarrow> (exn + jsval) \<times> 'w st" where
  "getPatientFiles client patientId s =
     (let (r, s1) = await client (getPatientFiles_request patientId) s
      in if truthy (error r)
         then (Inr (JArr []), console_error ''Error fetching patient files:'' (error r) s1)
         else (Inr (js_or (data r) (JArr [])), s1))"

text \<open>\<^verbatim>\<open>`${patientId}/${Date.now()}-${file.name}`\<close>\<close>

definition storage_key :: "string \<Rightarrow> nat \<Rightarrow> File \<Rightarrow> string" where
  "storage_key patientId now_ms file =
     patientId @ ''/'' @ string_of_nat now_ms @ ''-'' @ file_name file"

definition upload_request :: "string \<Rightarrow> nat \<Rightarrow> File \<Rightarrow> request" where
  "upload_request patientId now_ms file =
     StorageUpload ''patient-files'' (storage_key patientId now_ms file) file"

definition fileData :: "string \<Rightarrow> File \<Rightarrow> jsval \<Rightarrow> jsval" where
  "fileData patientId file path =
     JObj [(''patient_id'', JStr patientId),
           (''name'', JStr (file_name file)),
           (''type'', JStr (file_type file)),
           (''size'', JNum (int (file_size file))),
           (''storage_path'', path)]"

definition metadata_request :: "string \<Rightarrow> File \<Rightarrow> jsval \<Rightarrow> request" where
  "metadata_request patientId file path = Insert ''patient_files'' [fileData patientId file path]"

definition uploadPatientFile ::
  "'w client \<Rightarrow> nat \<Rightarrow> string \<Rightarrow> File \<Rightarrow> 'w st \<Rightarrow> (exn + jsval) \<times> 'w st" where
  "uploadPatientFile client now_ms patientId file s =
     (let (up, s1) = await client (upload_request patientId now_ms file) s
      in if truthy (error up)
         then (Inr JNull, console_error ''Error uploading file:'' (error up) s1)
         else (case get_prop (data up) ''path'' of
                 Inl e \<Rightarrow> (Inl e, s1)
               | Inr path \<Rightarrow>
                   (let (r, s2) = await client (metadata_request patientId file path) s1
                    in if truthy (error r)
                       then (Inr JNull, console_error ''Error saving file metadata:'' (error r) s2)
                       else (Inr (data r), s2))))"

definition fetch_request :: "string \<Rightarrow> request" where
  "fetch_request fileId = Select ''patient_files'' ''storage_path'' (Some (''id'', fileId)) None True"

definition remove_request :: "jsval \<Rightarrow> request" where
  "remove_request path = StorageRemove ''patient-files'' [path]"

definition delete_request :: "string \<Rightarrow> request" where
  "delete_request fileId = Delete ''patient_files'' (''id'', fileId)"

definition deletePatientFile :: "'w client \<Rightarrow> string \<Rightarrow> 'w st \<Rightarrow> (exn + jsval) \<times> 'w st" where
  "deletePatientFile client fileId s =
     (let (fetched, s1) = await client (fetch_request fileId) s
      in if truthy (error fetched)
         then (Inr (JBool False), console_error ''Error fetching file info:'' (error fetched) s1)
         else (case get_prop (data fetched) ''storage_path'' of
                 Inl e \<Rightarrow> (Inl e, s1)
               | Inr path \<Rightarrow>
                   (let (removed, s2) = await client (remove_request path) s1;
                        s3 = (if truthy (error removed)
                              then console_error ''Error deleting file from storage:''
                                     (error removed) s2
                              else s2);
                        (r, s4) = await client (delete_request fileId) s3
                    in if truthy (error r)
                       then (Inr (JBool False),
                             console_error ''Error deleting file metadata:'' (error r) s4)
                       else (Inr (JBool True), s4))))"

definition getFileUrl_request :: "string \<Rightarrow> request" where
  "getFileUrl_request storagePath = CreateSignedUrl ''patient-files'' storagePath 3600"

text \<open>Only \<^verbatim>\<open>data\<close> is taken from the response.\<close>

definition getFileUrl :: "'w client \<Rightarrow> string \<Rightarrow> 'w st \<Rightarrow> (exn + jsval) \<times> 'w st" where
  "getFileUrl client storagePath s =
     (let (r, s1) = await client (getFileUrl_request storagePath) s
      in (Inr (js_or (opt_get_prop (data r) ''signedUrl'') JNull), s1))"

section \<open>Observing a run\<close>

text \<open>The response to a request issued in state \<open>s\<close>, the state once it has been
  received, and whether the response carries an error (the test \<^verbatim>\<open>if (error)\<close>).\<close>

definition reply :: "'w client \<Rightarrow> request \<Rightarrow> 'w st \<Rightarrow> response" where
  "reply client rq s = fst (await client rq s)"

definition after :: "'w client \<Rightarrow> request \<Rightarrow> 'w st \<Rightarrow> 'w st" where
  "after client rq s = snd (await client rq s)"

definition fails :: "'w client \<Rightarrow> request \<Rightarrow> 'w st \<Rightarrow> bool" where
  "fails client rq s = truthy (error (reply client rq s))"

text \<open>An outcome that resolves to \<open>v\<close> and has written exactly one entry, \<open>(msg, e)\<close>,
  to the diagnostic channel since state \<open>s\<close>.\<close>

definition logs_and_returns ::
  "(exn + jsval) \<times> 'w st \<Rightarrow> 'w st \<Rightarrow> string \<Rightarrow> jsval \<Rightarrow> jsval \<Rightarrow> bool" where
  "logs_and_returns out s msg e v \<longleftrightarrow>
     fst out = Inr v \<and> console (snd out) = console s @ [(msg, e)]"

section \<open>The contract of a many-row select\<close>







section \<open>A scripted client\<close>

text \<open>A client for concrete runs: the remote side is the list of responses still to
  be given, one per call, whatever the request; when the script is used up every call
  succeeds with no data.\<close>

definition ok :: "jsval \<Rightarrow> response" where
  "ok d = \<lparr>data = d, error = JNull\<rparr>"

definition failed :: "string \<Rightarrow> response" where
  "failed msg = \<lparr>data = JNull, error = JObj [(''message'', JStr msg)]\<rparr>"

fun scripted :: "response list client" where
  "scripted rq [] = (ok JNull, [])"
| "scripted rq (r # rs) = (r, rs)"

definition start :: "'w \<Rightarrow> 'w st" where
  "start w = \<lparr>world = w, calls = [], console = []\<rparr>"

section \<open>Basic facts about a run\<close>

lemma await_conv: "await client rq s = (reply client rq s, after client rq s)"
  by (simp add: reply_def after_def)

lemma console_after [simp]: "console (after client rq s) = console s"
  by (simp add: after_def await_def split: prod.split)

lemma calls_after [simp]: "calls (after client rq s) = calls s @ [rq]"
  by (simp add: after_def await_def split: prod.split)

lemma world_after [simp]: "world (after client rq s) = snd (client rq (world s))"
  by (simp add: after_def await_def split: prod.split)

lemma console_console_error [simp]: "console (console_error msg e s) = console s @ [(msg, e)]"
  by (simp add: console_error_def)

lemma calls_console_error [simp]: "calls (console_error msg e s) = calls s"
  by (simp add: console_error_def)

lemma world_console_error [simp]: "world (console_error msg e s) = world s"
  by (simp add: console_error_def)

lemma reply_world: "world s = world t \<Longrightarrow> reply client rq s = reply client rq t"
  by (simp add: reply_def await_def split: prod.split)

lemma reply_console_error [simp]: "reply client rq (console_error msg e s) = reply client rq s"
  by (rule reply_world) simp

lemma fails_console_error [simp]: "fails client rq (console_error msg e s) = fails client rq s"
  by (simp add: fails_def)

lemma after_console_error [simp]:
  "after client rq (console_error msg e s) = console_error msg e (after client rq s)"
  by (simp add: after_def await_def console_error_def split: prod.split)



text \<open>Runs of the scripted client.\<close>

lemma reply_scripted [simp]:
  "reply scripted rq \<lparr>world = r # rs, calls = cs, console = out\<rparr> = r"
  by (simp add: reply_def await_def)

lemma after_scripted [simp]:
  "after scripted rq \<lparr>world = r # rs, calls = cs, console = out\<rparr> =
     \<lparr>world = rs, calls = cs @ [rq], console = out\<rparr>"
  by (simp add: after_def await_def)

lemma truthy_error_failed [simp]: "truthy (error (failed msg))"
  by (simp add: failed_def)

lemma truthy_error_ok [simp]: "\<not> truthy (error (ok d))"
  by (simp add: ok_def)

lemma data_ok [simp]: "data (ok d) = d"
  by (simp add: ok_def)

lemma data_failed [simp]: "data (failed msg) = JNull"
  by (simp add: failed_def)

section \<open>List operations\<close>

lemma getPatients_fails:
  "fails client getPatients_request s \<Longrightarrow>
   logs_and_returns (getPatients client s) s ''Error fetching patients:''
     (error (reply client getPatients_request s)) (JArr [])"
  by (simp add: getPatients_def await_conv fails_def logs_and_returns_def)

lemma getMedicalHistory_fails:
  "fails client (getMedicalHistory_request patientId) s \<Longrightarrow>
   logs_and_returns (getMedicalHistory client patientId s) s ''Error fetching medical history:''
     (error (reply client (getMedicalHistory_request patientId) s)) (JArr [])"
  by (simp add: getMedicalHistory_def await_conv fails_def logs_and_returns_def)

lemma getAppointments_fails:
  "fails client getAppointments_request s \<Longrightarrow>
   logs_and_returns (getAppointments client s) s ''Error fetching appointments:''
     (error (reply client getAppointments_request s)) (JArr [])"
  by (simp add: getAppointments_def await_conv fails_def logs_and_returns_def)

lemma getPatientFiles_fails:
  "fails client (getPatientFiles_request patientId) s \<Longrightarrow>
   logs_and_returns (getPatientFiles client patientId s) s ''Error fetching patient files:''
     (error (reply client (getPatientFiles_request patientId) s)) (JArr [])"
  by (simp add: getPatientFiles_def await_conv fails_def logs_and_returns_def)

text \<open>
  Claim C5. Whenever the remote call of a list operation (getPatients, getAppointments,
  getMedicalHistory, getPatientFiles) comes back with an error, the operation writes
  that error to the diagnostic channel under its own message and resolves to the empty
  array; it does not reject.
\<close>

theorem list_operations_failure:
  "(fails client getPatients_request s \<longrightarrow>
      logs_and_returns (getPatients client s) s ''Error fetching patients:''
        (error (reply client getPatients_request s)) (JArr [])) \<and>
   (fails client getAppointments_request s \<longrightarrow>
      logs_and_returns (getAppointments client s) s ''Error fetching appointments:''
        (error (reply client getAppointments_request s)) (JArr [])) \<and>
   (fails client (getMedicalHistory_request patientId) s \<longrightarrow>
      logs_and_returns (getMedicalHistory client patientId s) s
        ''Error fetching medical history:''
        (error (reply client (getMedicalHistory_request patientId) s)) (JArr [])) \<and>
   (fails client (getPatientFiles_request patientId) s \<longrightarrow>
      logs_and_returns (getPatientFiles client patientId s) s
        ''Error fetching patient files:''
        (error (reply client (getPatientFiles_request patientId) s)) (JArr []))"
  using getPatients_fails getAppointments_fails getMedicalHistory_fails getPatientFiles_fails
  by blast

theorem list_operations_failure_witness:
  "fails scripted getPatients_request (start [failed ''timeout'']) \<and>
   fails scripted getAppointments_request (start [failed ''timeout'']) \<and>
   fails scripted (getMedicalHistory_request ''p1'') (start [failed ''timeout'']) \<and>
   fails scripted (getPatientFiles_request ''p1'') (start [failed ''timeout'']) \<and>
   fst (getPatients scripted (start [failed ''timeout''])) = Inr (JArr []) \<and>
   fst (getAppointments scripted (start [failed ''timeout''])) = Inr (JArr []) \<and>
   fst (getMedicalHistory scripted ''p1'' (start [failed ''timeout''])) = Inr (JArr []) \<and>
   fst (getPatientFiles scripted ''p1'' (start [failed ''timeout''])) = Inr (JArr []) \<and>
   console (snd (getPatients scripted (start [failed ''timeout'']))) =
     [(''Error fetching patients:'', JObj [(''message'', JStr ''timeout'')])]"
proof -
  have f: "fails scripted rq (start [failed ''timeout''])" for rq
    by (simp add: fails_def start_def)
  have e: "error (failed ''timeout'') = JObj [(''message'', JStr ''timeout'')]"
    by (simp add: failed_def)
  show ?thesis
    using list_operations_failure [of scripted "start [failed ''timeout'']" "''p1''"] f e
    by (simp add: logs_and_returns_def start_def)
qed

section \<open>Adding a medical history record\<close>

lemma addMedicalHistory_insert_fails:
  "fails client (addMedicalHistory_request history) s \<Longrightarrow>
   addMedicalHistory client history s =
     (Inr JNull, console_error ''Error adding medical history:''
        (error (reply client (addMedicalHistory_request history) s))
        (after client (addMedicalHistory_request history) s))"
  by (simp add: addMedicalHistory_def await_conv fails_def)

lemma addMedicalHistory_insert_ok:
  "\<not> fails client (addMedicalHistory_request history) s \<Longrightarrow>
   addMedicalHistory client history s =
     (Inr (data (reply client (addMedicalHistory_request history) s)),
      after client (increment_request history) (after client (addMedicalHistory_request history) s))"
  by (simp add: addMedicalHistory_def await_conv fails_def)

text \<open>
  Claim C4. addMedicalHistory issues the increment of the treatments counter, for the
  patient named by the history's \<^verbatim>\<open>patient_id\<close>, only after an insert that succeeded:
  when the insert fails the result is null and the insert is the only request issued.
  After a successful insert the result is the inserted row whatever the increment call
  answers; in particular a failing increment leaves the result the inserted row, and
  the increment is the last request issued (nothing undoes the insert).
\<close>

theorem addMedicalHistory_increment:
  "(fails client (addMedicalHistory_request history) s \<longrightarrow>
      fst (addMedicalHistory client history s) = Inr JNull \<and>
      calls (snd (addMedicalHistory client history s)) =
        calls s @ [Insert ''medical_history'' [JObj history]]) \<and>
   (\<not> fails client (addMedicalHistory_request history) s \<longrightarrow>
      calls (snd (addMedicalHistory client history s)) =
        calls s @ [Insert ''medical_history'' [JObj history],
                   Rpc ''increment_patient_treatments''
                     (JObj [(''patient_id'', obj_get history ''patient_id'')])] \<and>
      fst (addMedicalHistory client history s) =
        Inr (data (reply client (addMedicalHistory_request history) s))) \<and>
   (\<not> fails client (addMedicalHistory_request history) s \<and>
    fails client (increment_request history)
      (after client (addMedicalHistory_request history) s) \<longrightarrow>
      fst (addMedicalHistory client history s) =
        Inr (data (reply client (addMedicalHistory_request history) s)) \<and>
      world (snd (addMedicalHistory client history s)) =
        world (after client (increment_request history)
                 (after client (addMedicalHistory_request history) s)))"
  by (simp add: addMedicalHistory_insert_fails addMedicalHistory_insert_ok
      addMedicalHistory_request_def increment_request_def)

theorem addMedicalHistory_increment_witness:
  "\<not> fails scripted (addMedicalHistory_request [(''patient_id'', JStr ''p1''), (''treatment'', JStr ''masaje'')])
       (start [ok (JObj [(''id'', JStr ''h1'')]), failed ''rpc'']) \<and>
   fails scripted (increment_request [(''patient_id'', JStr ''p1''), (''treatment'', JStr ''masaje'')])
     (after scripted (addMedicalHistory_request [(''patient_id'', JStr ''p1''), (''treatment'', JStr ''masaje'')])
        (start [ok (JObj [(''id'', JStr ''h1'')]), failed ''rpc''])) \<and>
   fst (addMedicalHistory scripted [(''patient_id'', JStr ''p1''), (''treatment'', JStr ''masaje'')]
          (start [ok (JObj [(''id'', JStr ''h1'')]), failed ''rpc''])) = Inr (JObj [(''id'', JStr ''h1'')]) \<and>
   calls (snd (addMedicalHistory scripted [(''patient_id'', JStr ''p1''), (''treatment'', JStr ''masaje'')]
          (start [ok (JObj [(''id'', JStr ''h1'')]), failed ''rpc'']))) =
     [Insert ''medical_history'' [JObj [(''patient_id'', JStr ''p1''), (''treatment'', JStr ''masaje'')]],
      Rpc ''increment_patient_treatments'' (JObj [(''patient_id'', JStr ''p1'')])] \<and>
   fails scripted (addMedicalHistory_request [(''patient_id'', JStr ''p1'')]) (start [failed ''insert'']) \<and>
   fst (addMedicalHistory scripted [(''patient_id'', JStr ''p1'')] (start [failed ''insert''])) = Inr JNull \<and>
   calls (snd (addMedicalHistory scripted [(''patient_id'', JStr ''p1'')] (start [failed ''insert'']))) =
     [Insert ''medical_history'' [JObj [(''patient_id'', JStr ''p1'')]]]"
proof -
  have a: "\<not> fails scripted rq (start (ok d # rs))" for rq d rs
    by (simp add: fails_def start_def)
  have b: "fails scripted rq (after scripted rq' (start [r, failed m]))" for rq rq' r m
    by (simp add: fails_def start_def)
  have c: "fails scripted rq (start [failed m])" for rq m
    by (simp add: fails_def start_def)
  show ?thesis
    using addMedicalHistory_increment [of scripted "[(''patient_id'', JStr ''p1''), (''treatment'', JStr ''masaje'')]"
        "start [ok (JObj [(''id'', JStr ''h1'')]), failed ''rpc'']"]
      addMedicalHistory_increment [of scripted "[(''patient_id'', JStr ''p1'')]" "start [failed ''insert'']"]
      a b c
    by (simp add: start_def obj_get_def)
qed

section \<open>Uploading a patient file\<close>

lemma uploadPatientFile_upload_fails:
  "fails client (upload_request patientId now_ms file) s \<Longrightarrow>
   uploadPatientFile client now_ms patientId file s =
     (Inr JNull, console_error ''Error uploading file:''
        (error (reply client (upload_request patientId now_ms file) s))
        (after client (upload_request patientId now_ms file) s))"
  by (simp add: uploadPatientFile_def await_conv fails_def)

lemma uploadPatientFile_upload_ok:
  "\<not> fails client (upload_request patientId now_ms file) s \<Longrightarrow>
   get_prop (data (reply client (upload_request patientId now_ms file) s)) ''path'' = Inr path \<Longrightarrow>
   uploadPatientFile client now_ms patientId file s =
     (let s1 = after client (upload_request patientId now_ms file) s;
          r = reply client (metadata_request patientId file path) s1;
          s2 = after client (metadata_request patientId file path) s1
      in if truthy (error r)
         then (Inr JNull, console_error ''Error saving file metadata:'' (error r) s2)
         else (Inr (data r), s2))"
  by (simp add: uploadPatientFile_def await_conv fails_def Let_def)

lemma uploadPatientFile_no_data:
  "\<not> fails client (upload_request patientId now_ms file) s \<Longrightarrow>
   get_prop (data (reply client (upload_request patientId now_ms file) s)) ''path'' = Inl e \<Longrightarrow>
   uploadPatientFile client now_ms patientId file s =
     (Inl e, after client (upload_request patientId now_ms file) s)"
  by (simp add: uploadPatientFile_def await_conv fails_def Let_def)



section \<open>Deleting a patient file\<close>

lemma deletePatientFile_fetch_fails:
  "fails client (fetch_request fileId) s \<Longrightarrow>
   deletePatientFile client fileId s =
     (Inr (JBool False), console_error ''Error fetching file info:''
        (error (reply client (fetch_request fileId) s)) (after client (fetch_request fileId) s))"
  by (simp add: deletePatientFile_def await_conv fails_def)

lemma deletePatientFile_fetch_ok:
  "\<not> fails client (fetch_request fileId) s \<Longrightarrow>
   get_prop (data (reply client (fetch_request fileId) s)) ''storage_path'' = Inr path \<Longrightarrow>
   deletePatientFile client fileId s =
     (let s1 = after client (fetch_request fileId) s;
          removed = reply client (remove_request path) s1;
          s2 = after client (remove_request path) s1;
          s3 = (if truthy (error removed)
                then console_error ''Error deleting file from storage:'' (error removed) s2
                else s2);
          r = reply client (delete_request fileId) s2;
          s4 = after client (delete_request fileId) s3
      in if truthy (error r)
         then (Inr (JBool False), console_error ''Error deleting file metadata:'' (error r) s4)
         else (Inr (JBool True), s4))"
  by (simp add: deletePatientFile_def await_conv fails_def Let_def)

lemma deletePatientFile_no_data:
  "\<not> fails client (fetch_request fileId) s \<Longrightarrow>
   get_prop (data (reply client (fetch_request fileId) s)) ''storage_path'' = Inl e \<Longrightarrow>
   deletePatientFile client fileId s = (Inl e, after client (fetch_request fileId) s)"
  by (simp add: deletePatientFile_def await_conv fails_def Let_def)

text \<open>
  Claim C2. Provided a fetch that succeeds delivers a row (so that its
  \<^verbatim>\<open>storage_path\<close> can be read), deletePatientFile resolves to false exactly when the
  initial metadata fetch fails or, the fetch having succeeded, the final deletion of the
  metadata row fails. When the removal of the blob fails while the fetch and the
  deletion of the row succeed, the deletion of the row is still issued and carried out,
  and the result is true.
\<close>

theorem deletePatientFile_result:
  assumes "\<not> fails client (fetch_request fileId) s \<Longrightarrow>
           get_prop (data (reply client (fetch_request fileId) s)) ''storage_path'' = Inr path"
  shows "(fst (deletePatientFile client fileId s) = Inr (JBool False) \<longleftrightarrow>
            fails client (fetch_request fileId) s \<or>
            \<not> fails client (fetch_request fileId) s \<and>
            fails client (delete_request fileId)
              (after client (remove_request path) (after client (fetch_request fileId) s))) \<and>
         (\<not> fails client (fetch_request fileId) s \<and>
          fails client (remove_request path) (after client (fetch_request fileId) s) \<and>
          \<not> fails client (delete_request fileId)
              (after client (remove_request path) (after client (fetch_request fileId) s)) \<longrightarrow>
            fst (deletePatientFile client fileId s) = Inr (JBool True) \<and>
            calls (snd (deletePatientFile client fileId s)) =
              calls s @ [Select ''patient_files'' ''storage_path'' (Some (''id'', fileId)) None True,
                         StorageRemove ''patient-files'' [path],
                         Delete ''patient_files'' (''id'', fileId)] \<and>
            world (snd (deletePatientFile client fileId s)) =
              world (after client (delete_request fileId)
                (after client (remove_request path) (after client (fetch_request fileId) s))))"
proof (cases "fails client (fetch_request fileId) s")
  case True
  then show ?thesis
    by (simp add: deletePatientFile_fetch_fails)
next
  case False
  with assms have p: "get_prop (data (reply client (fetch_request fileId) s)) ''storage_path'' = Inr path"
    by simp
  show ?thesis
    using False
    by (simp add: deletePatientFile_fetch_ok [OF False p] Let_def fails_def
        fetch_request_def remove_request_def delete_request_def)
qed

theorem deletePatientFile_result_witness:
  "\<not> fails scripted (fetch_request ''f1'')
       (start [ok (JObj [(''storage_path'', JStr ''p1/17-x.pdf'')]), failed ''storage'', ok JNull]) \<and>
   fails scripted (remove_request (JStr ''p1/17-x.pdf''))
     (after scripted (fetch_request ''f1'')
       (start [ok (JObj [(''storage_path'', JStr ''p1/17-x.pdf'')]), failed ''storage'', ok JNull])) \<and>
   fst (deletePatientFile scripted ''f1''
       (start [ok (JObj [(''storage_path'', JStr ''p1/17-x.pdf'')]), failed ''storage'', ok JNull])) =
     Inr (JBool True) \<and>
   calls (snd (deletePatientFile scripted ''f1''
       (start [ok (JObj [(''storage_path'', JStr ''p1/17-x.pdf'')]), failed ''storage'', ok JNull]))) =
     [Select ''patient_files'' ''storage_path'' (Some (''id'', ''f1'')) None True,
      StorageRemove ''patient-files'' [JStr ''p1/17-x.pdf''],
      Delete ''patient_files'' (''id'', ''f1'')] \<and>
   fst (deletePatientFile scripted ''f1''
       (start [ok (JObj [(''storage_path'', JStr ''p1/17-x.pdf'')]), ok JNull, failed ''row''])) =
     Inr (JBool False)"
proof -
  let ?row = "ok (JObj [(''storage_path'', JStr ''p1/17-x.pdf'')])"
  have p: "get_prop (data (reply scripted rq (start (?row # rs)))) ''storage_path'' =
             Inr (JStr ''p1/17-x.pdf'')" for rq rs
    by (simp add: start_def obj_get_def)
  have a: "\<not> fails scripted rq (start (ok d # rs))" for rq d rs
    by (simp add: fails_def start_def)
  have b: "fails scripted rq (after scripted rq' (start [r, failed m, r'']))" for rq rq' r m r''
    by (simp add: fails_def start_def)
  have c: "\<not> fails scripted rq (after scripted rq' (after scripted rq'' (start [r, r', ok d])))"
    for rq rq' rq'' r r' d
    by (simp add: fails_def start_def)
  have d: "fails scripted rq (after scripted rq' (after scripted rq'' (start [r, r', failed m])))"
    for rq rq' rq'' r r' m
    by (simp add: fails_def start_def)
  show ?thesis
    using deletePatientFile_result [of scripted "''f1''" "start [?row, failed ''storage'', ok JNull]"
        "JStr ''p1/17-x.pdf''", OF p]
      deletePatientFile_result [of scripted "''f1''" "start [?row, ok JNull, failed ''row'']"
        "JStr ''p1/17-x.pdf''", OF p]
      a b c d
    by (simp add: start_def)
qed

section \<open>Updating a row\<close>

lemma map_of_stamped:
  "map_of (stamped updates now) = (map_of updates)(''updated_at'' \<mapsto> JStr now)"
  by (simp add: stamped_def update_conv')

lemma keys_stamped:
  "map fst (stamped updates now) =
     (if ''updated_at'' \<in> set (map fst updates) then map fst updates
      else map fst updates @ [''updated_at''])"
  by (simp add: stamped_def update_keys)

lemma updatePatient_fails:
  "fails client (updatePatient_request id' updates now) s \<Longrightarrow>
   updatePatient client now id' updates s =
     (Inr JNull, console_error ''Error updating patient:''
        (error (reply client (updatePatient_request id' updates now) s))
        (after client (updatePatient_request id' updates now) s))"
  by (simp add: updatePatient_def await_conv fails_def)

lemma updatePatient_ok:
  "\<not> fails client (updatePatient_request id' updates now) s \<Longrightarrow>
   updatePatient client now id' updates s =
     (Inr (data (reply client (updatePatient_request id' updates now) s)),
      after client (updatePatient_request id' updates now) s)"
  by (simp add: updatePatient_def await_conv fails_def)

lemma updateAppointment_fails:
  "fails client (updateAppointment_request id' updates now) s \<Longrightarrow>
   updateAppointment client now id' updates s =
     (Inr JNull, console_error ''Error updating appointment:''
        (error (reply client (updateAppointment_request id' updates now) s))
        (after client (updateAppointment_request id' updates now) s))"
  by (simp add: updateAppointment_def await_conv fails_def)

lemma updateAppointment_ok:
  "\<not> fails client (updateAppointment_request id' updates now) s \<Longrightarrow>
   updateAppointment client now id' updates s =
     (Inr (data (reply client (updateAppointment_request id' updates now) s)),
      after client (updateAppointment_request id' updates now) s)"
  by (simp add: updateAppointment_def await_conv fails_def)

lemma calls_updatePatient:
  "calls (snd (updatePatient client now id' updates s)) =
     calls s @ [updatePatient_request id' updates now]"
  by (cases "fails client (updatePatient_request id' updates now) s")
     (simp_all add: updatePatient_fails updatePatient_ok)

lemma calls_updateAppointment:
  "calls (snd (updateAppointment client now id' updates s)) =
     calls s @ [updateAppointment_request id' updates now]"
  by (cases "fails client (updateAppointment_request id' updates now) s")
     (simp_all add: updateAppointment_fails updateAppointment_ok)



text \<open>
  Claim C9. When the caller's updates carry an \<^verbatim>\<open>updated_at\<close>, the field set sent by
  updatePatient and updateAppointment has the same properties in the same order, its
  \<^verbatim>\<open>updated_at\<close> is the time read at the call and not the caller's value, and every
  other property, \<^verbatim>\<open>id\<close> included, has the caller's value.
\<close>

theorem caller_updated_at_overridden:
  assumes "map_of updates ''updated_at'' = Some v"
  shows "calls (snd (updatePatient client now id' updates s)) =
           calls s @ [Update ''patients'' (JObj (stamped updates now)) (''id'', id')] \<and>
         calls (snd (updateAppointment client now id' updates s)) =
           calls s @ [Update ''appointments'' (JObj (stamped updates now)) (''id'', id')] \<and>
         map fst (stamped updates now) = map fst updates \<and>
         map_of (stamped updates now) ''updated_at'' = Some (JStr now) \<and>
         (\<forall>k. k \<noteq> ''updated_at'' \<longrightarrow> map_of (stamped updates now) k = map_of updates k) \<and>
         map_of (stamped updates now) ''id'' = map_of updates ''id''"
proof -
  from assms have "''updated_at'' \<in> set (map fst updates)"
    by (metis map_of_eq_None_iff option.distinct(1) set_map)
  then have "map fst (stamped updates now) = map fst updates"
    by (simp add: keys_stamped)
  then show ?thesis
    by (simp add: calls_updatePatient calls_updateAppointment updatePatient_request_def
        updateAppointment_request_def map_of_stamped)
qed

theorem caller_updated_at_overridden_witness:
  "map_of [(''id'', JStr ''other''), (''updated_at'', JStr ''1999-01-01''), (''phone'', JStr ''555'')]
     ''updated_at'' = Some (JStr ''1999-01-01'') \<and>
   calls (snd (updatePatient scripted ''2024-05-01T10:00:00.000Z'' ''p1''
     [(''id'', JStr ''other''), (''updated_at'', JStr ''1999-01-01''), (''phone'', JStr ''555'')]
     (start []))) =
   [Update ''patients''
      (JObj [(''id'', JStr ''other''), (''updated_at'', JStr ''2024-05-01T10:00:00.000Z''),
             (''phone'', JStr ''555'')])
      (''id'', ''p1'')]"
proof -
  have h: "map_of [(''id'', JStr ''other''), (''updated_at'', JStr ''1999-01-01''),
                   (''phone'', JStr ''555'')] ''updated_at'' = Some (JStr ''1999-01-01'')"
    by simp
  have st: "stamped [(''id'', JStr ''other''), (''updated_at'', JStr ''1999-01-01''),
                     (''phone'', JStr ''555'')] ''2024-05-01T10:00:00.000Z'' =
            [(''id'', JStr ''other''), (''updated_at'', JStr ''2024-05-01T10:00:00.000Z''),
             (''phone'', JStr ''555'')]"
    by (simp add: stamped_def)
  show ?thesis
    using caller_updated_at_overridden [OF h, of scripted "''2024-05-01T10:00:00.000Z''" "''p1''" "start []"] st
    by (simp add: start_def)
qed

section \<open>Signed URLs\<close>

lemma getFileUrl_conv:
  "getFileUrl client storagePath s =
     (Inr (js_or (opt_get_prop (data (reply client (getFileUrl_request storagePath) s))
             ''signedUrl'') JNull),
      after client (getFileUrl_request storagePath) s)"
  by (simp add: getFileUrl_def await_conv)

text \<open>
  Claim C8. getFileUrl issues one request, for a signed URL of the given storage path in
  the bucket, valid for 3600 seconds. When the response carries a (non-empty) URL
  string under \<^verbatim>\<open>signedUrl\<close> the result is that string; when the request fails, its
  response having an error and no data, the result is null.
\<close>

theorem getFileUrl_result:
  "calls (snd (getFileUrl client storagePath s)) =
     calls s @ [CreateSignedUrl ''patient-files'' storagePath 3600] \<and>
   (opt_get_prop (data (reply client (getFileUrl_request storagePath) s)) ''signedUrl'' = JStr url \<and>
    url \<noteq> [] \<longrightarrow>
      fst (getFileUrl client storagePath s) = Inr (JStr url)) \<and>
   (fails client (getFileUrl_request storagePath) s \<and>
    data (reply client (getFileUrl_request storagePath) s) = JNull \<longrightarrow>
      fst (getFileUrl client storagePath s) = Inr JNull)"
  by (simp add: getFileUrl_conv getFileUrl_request_def js_or_def)

theorem getFileUrl_result_witness:
  "opt_get_prop (data (reply scripted (getFileUrl_request ''p1/17-x.pdf'')
      (start [ok (JObj [(''signedUrl'', JStr ''https://files.example/p1/17-x.pdf?token=abc'')])])))
      ''signedUrl'' = JStr ''https://files.example/p1/17-x.pdf?token=abc'' \<and>
   fst (getFileUrl scripted ''p1/17-x.pdf''
      (start [ok (JObj [(''signedUrl'', JStr ''https://files.example/p1/17-x.pdf?token=abc'')])])) =
     Inr (JStr ''https://files.example/p1/17-x.pdf?token=abc'') \<and>
   fails scripted (getFileUrl_request ''p1/17-x.pdf'') (start [failed ''not found'']) \<and>
   data (reply scripted (getFileUrl_request ''p1/17-x.pdf'') (start [failed ''not found''])) = JNull \<and>
   fst (getFileUrl scripted ''p1/17-x.pdf'' (start [failed ''not found''])) = Inr JNull"
proof -
  have a: "opt_get_prop (data (reply scripted rq (start [ok (JObj [(''signedUrl'', u)])])))
             ''signedUrl'' = u" for rq u
    by (simp add: start_def obj_get_def)
  have b: "fails scripted rq (start [failed m])" for rq m
    by (simp add: fails_def start_def)
  have c: "data (reply scripted rq (start [failed m])) = JNull" for rq m
    by (simp add: start_def)
  show ?thesis
    using getFileUrl_result [of scripted "''p1/17-x.pdf''"
        "start [ok (JObj [(''signedUrl'', JStr ''https://files.example/p1/17-x.pdf?token=abc'')])]"
        "''https://files.example/p1/17-x.pdf?token=abc''"]
      getFileUrl_result [of scripted "''p1/17-x.pdf''" "start [failed ''not found'']"]
      a b c
    by simp
qed

section \<open>Listing appointments\<close>

lemma with_patientName_Inr:
  assumes "with_patientName apt = Inr out"
  shows "\<exists>p n. get_prop apt ''patients'' = Inr p \<and> get_prop p ''name'' = Inr n \<and>
           get_prop out ''patients'' = Inr p \<and> get_prop out ''patientName'' = Inr n"
proof -
  from assms obtain p n where p: "get_prop apt ''patients'' = Inr p"
    and n: "get_prop p ''name'' = Inr n"
    and out: "out = JObj (AList.update ''patientName'' n (spread apt))"
    by (auto simp: with_patientName_def Let_def split: sum.splits)
  from n have "p \<noteq> JUndefined" "p \<noteq> JNull"
    by auto
  with p obtain ps where apt: "apt = JObj ps"
    by (cases apt) auto
  from p apt have "get_prop out ''patients'' = Inr p"
    by (simp add: out obj_get_def update_conv')
  moreover have "get_prop out ''patientName'' = Inr n"
    by (simp add: out obj_get_def update_conv')
  ultimately show ?thesis
    using p n by blast
qed

lemma map_exn_Inr:
  "map_exn f xs = Inr ys \<Longrightarrow> list_all2 (\<lambda>x y. f x = Inr y) xs ys"
  by (induction xs arbitrary: ys) (auto split: sum.splits)

lemma getAppointments_ok:
  "\<not> fails client getAppointments_request s \<Longrightarrow>
   getAppointments client s =
     (case opt_map with_patientName (data (reply client getAppointments_request s)) of
        Inl e \<Rightarrow> (Inl e, after client getAppointments_request s)
      | Inr v \<Rightarrow> (Inr (js_or v (JArr [])), after client getAppointments_request s))"
  by (simp add: getAppointments_def await_conv fails_def)

text \<open>
  Claim C10. When getAppointments receives an array of rows and resolves, its result is
  an array with one element per row, in the same order, and each element has both the
  row's nested \<^verbatim>\<open>patients\<close> object, unchanged, and a \<^verbatim>\<open>patientName\<close> equal to the
  \<^verbatim>\<open>name\<close> of that object.
\<close>

theorem getAppointments_keeps_join:
  assumes "\<not> fails client getAppointments_request s"
    and "data (reply client getAppointments_request s) = JArr rows"
    and "fst (getAppointments client s) = Inr res"
  shows "\<exists>out. res = JArr out \<and>
           list_all2 (\<lambda>row elem. \<exists>p n.
               get_prop row ''patients'' = Inr p \<and> get_prop p ''name'' = Inr n \<and>
               get_prop elem ''patients'' = Inr p \<and> get_prop elem ''patientName'' = Inr n)
             rows out"
proof -
  from assms obtain out where m: "map_exn with_patientName rows = Inr out" and r: "res = JArr out"
    by (auto simp: getAppointments_ok js_or_def split: sum.splits)
  from m have "list_all2 (\<lambda>x y. with_patientName x = Inr y) rows out"
    by (rule map_exn_Inr)
  then have "list_all2 (\<lambda>row elem. \<exists>p n.
               get_prop row ''patients'' = Inr p \<and> get_prop p ''name'' = Inr n \<and>
               get_prop elem ''patients'' = Inr p \<and> get_prop elem ''patientName'' = Inr n)
             rows out"
    by (rule list_all2_mono) (rule with_patientName_Inr)
  with r show ?thesis
    by blast
qed

theorem getAppointments_keeps_join_witness:
  "fst (getAppointments scripted
     (start [ok (JArr [JObj [(''id'', JStr ''a1''), (''date'', JStr ''2024-05-02''),
                             (''patients'', JObj [(''name'', JStr ''Ana Ruiz'')])]])])) =
   Inr (JArr [JObj [(''id'', JStr ''a1''), (''date'', JStr ''2024-05-02''),
                    (''patients'', JObj [(''name'', JStr ''Ana Ruiz'')]),
                    (''patientName'', JStr ''Ana Ruiz'')]]) \<and>
   (\<exists>out. JArr [JObj [(''id'', JStr ''a1''), (''date'', JStr ''2024-05-02''),
                    (''patients'', JObj [(''name'', JStr ''Ana Ruiz'')]),
                    (''patientName'', JStr ''Ana Ruiz'')]] = JArr out \<and>
      list_all2 (\<lambda>row elem. \<exists>p n.
          get_prop row ''patients'' = Inr p \<and> get_prop p ''name'' = Inr n \<and>
          get_prop elem ''patients'' = Inr p \<and> get_prop elem ''patientName'' = Inr n)
        [JObj [(''id'', JStr ''a1''), (''date'', JStr ''2024-05-02''),
               (''patients'', JObj [(''name'', JStr ''Ana Ruiz'')])]] out)"
proof -
  let ?row = "JObj [(''id'', JStr ''a1''), (''date'', JStr ''2024-05-02''),
                    (''patients'', JObj [(''name'', JStr ''Ana Ruiz'')])]"
  let ?s = "start [ok (JArr [?row])]"
  have a: "\<not> fails scripted getAppointments_request ?s"
    by (simp add: fails_def start_def)
  have b: "data (reply scripted getAppointments_request ?s) = JArr [?row]"
    by (simp add: start_def)
  have c: "fst (getAppointments scripted ?s) =
             Inr (JArr [JObj [(''id'', JStr ''a1''), (''date'', JStr ''2024-05-02''),
                    (''patients'', JObj [(''name'', JStr ''Ana Ruiz'')]),
                    (''patientName'', JStr ''Ana Ruiz'')]])"
    by (simp add: getAppointments_ok [OF a] b with_patientName_def obj_get_def js_or_def)
  from getAppointments_keeps_join [OF a b c] c show ?thesis
    by blast
qed

section \<open>Ordering and filtering of the list operations\<close>

























section \<open>Errors of remote calls, operation by operation\<close>

lemma reply_scripted_Nil [simp]:
  "reply scripted rq \<lparr>world = [], calls = cs, console = out\<rparr> = ok JNull"
  by (simp add: reply_def await_def)

lemma after_scripted_Nil [simp]:
  "after scripted rq \<lparr>world = [], calls = cs, console = out\<rparr> =
     \<lparr>world = [], calls = cs @ [rq], console = out\<rparr>"
  by (simp add: after_def await_def)

lemma getPatients_error:
  "fails client getPatients_request s \<longrightarrow>
      logs_and_returns (getPatients client s) s ''Error fetching patients:''
        (error (reply client getPatients_request s)) (JArr [])"
  using getPatients_fails by blast

lemma getPatientById_error:
  "fails client (getPatientById_request id') s \<longrightarrow>
      logs_and_returns (getPatientById client id' s) s ''Error fetching patient:''
        (error (reply client (getPatientById_request id') s)) JNull"
  by (simp add: getPatientById_def await_conv fails_def logs_and_returns_def)

lemma createPatient_error:
  "fails client (createPatient_request patient) s \<longrightarrow>
      logs_and_returns (createPatient client patient s) s ''Error creating patient:''
        (error (reply client (createPatient_request patient) s)) JNull"
  by (simp add: createPatient_def await_conv fails_def logs_and_returns_def)

lemma updatePatient_error:
  "fails client (updatePatient_request id' updates now) s \<longrightarrow>
      logs_and_returns (updatePatient client now id' updates s) s ''Error updating patient:''
        (error (reply client (updatePatient_request id' updates now) s)) JNull"
  by (simp add: updatePatient_fails logs_and_returns_def)

lemma deletePatient_error:
  "fails client (deletePatient_request id') s \<longrightarrow>
      logs_and_returns (deletePatient client id' s) s ''Error deleting patient:''
        (error (reply client (deletePatient_request id') s)) (JBool False)"
  by (simp add: deletePatient_def await_conv fails_def logs_and_returns_def)

lemma getMedicalHistory_error:
  "fails client (getMedicalHistory_request patientId) s \<longrightarrow>
      logs_and_returns (getMedicalHistory client patientId s) s ''Error fetching medical history:''
        (error (reply client (getMedicalHistory_request patientId) s)) (JArr [])"
  using getMedicalHistory_fails by blast

lemma addMedicalHistory_error:
  "fails client (addMedicalHistory_request history) s \<longrightarrow>
      logs_and_returns (addMedicalHistory client history s) s ''Error adding medical history:''
        (error (reply client (addMedicalHistory_request history) s)) JNull"
  by (simp add: addMedicalHistory_insert_fails logs_and_returns_def)

lemma addMedicalHistory_increment_error:
  "\<not> fails client (addMedicalHistory_request history) s \<and>
    fails client (increment_request history)
      (after client (addMedicalHistory_request history) s) \<longrightarrow>
      fst (addMedicalHistory client history s) =
        Inr (data (reply client (addMedicalHistory_request history) s))"
  by (simp add: addMedicalHistory_insert_ok)

lemma getAppointments_error:
  "fails client getAppointments_request s \<longrightarrow>
      logs_and_returns (getAppointments client s) s ''Error fetching appointments:''
        (error (reply client getAppointments_request s)) (JArr [])"
  using getAppointments_fails by blast

lemma createAppointment_error:
  "fails client (createAppointment_request appointment) s \<longrightarrow>
      logs_and_returns (createAppointment client appointment s) s ''Error creating appointment:''
        (error (reply client (createAppointment_request appointment) s)) JNull"
  by (simp add: createAppointment_def await_conv fails_def logs_and_returns_def)

lemma updateAppointment_error:
  "fails client (updateAppointment_request id' updates now) s \<longrightarrow>
      logs_and_returns (updateAppointment client now id' updates s) s ''Error updating appointment:''
        (error (reply client (updateAppointment_request id' updates now) s)) JNull"
  by (simp add: updateAppointment_fails logs_and_returns_def)

lemma deleteAppointment_error:
  "fails client (deleteAppointment_request id') s \<longrightarrow>
      logs_and_returns (deleteAppointment client id' s) s ''Error deleting appointment:''
        (error (reply client (deleteAppointment_request id') s)) (JBool False)"
  by (simp add: deleteAppointment_def await_conv fails_def logs_and_returns_def)

lemma getPatientFiles_error:
  "fails client (getPatientFiles_request patientId) s \<longrightarrow>
      logs_and_returns (getPatientFiles client patientId s) s ''Error fetching patient files:''
        (error (reply client (getPatientFiles_request patientId) s)) (JArr [])"
  using getPatientFiles_fails by blast

lemma uploadPatientFile_upload_error:
  "fails client (upload_request patientId now_ms file) s \<longrightarrow>
      logs_and_returns (uploadPatientFile client now_ms patientId file s) s ''Error uploading file:''
        (error (reply client (upload_request patientId now_ms file) s)) JNull"
  by (simp add: uploadPatientFile_upload_fails logs_and_returns_def)

lemma uploadPatientFile_metadata_error:
  "\<not> fails client (upload_request patientId now_ms file) s \<and>
    get_prop (data (reply client (upload_request patientId now_ms file) s)) ''path'' = Inr path \<and>
    fails client (metadata_request patientId file path)
      (after client (upload_request patientId now_ms file) s) \<longrightarrow>
      logs_and_returns (uploadPatientFile client now_ms patientId file s) s
        ''Error saving file metadata:''
        (error (reply client (metadata_request patientId file path)
           (after client (upload_request patientId now_ms file) s))) JNull"
  by (simp add: uploadPatientFile_upload_ok Let_def fails_def logs_and_returns_def)

lemma deletePatientFile_fetch_error:
  "fails client (fetch_request fileId) s \<longrightarrow>
      logs_and_returns (deletePatientFile client fileId s) s ''Error fetching file info:''
        (error (reply client (fetch_request fileId) s)) (JBool False)"
  by (simp add: deletePatientFile_fetch_fails logs_and_returns_def)

lemma deletePatientFile_remove_error:
  "\<not> fails client (fetch_request fileId) s \<and>
    get_prop (data (reply client (fetch_request fileId) s)) ''storage_path'' = Inr spath \<and>
    fails client (remove_request spath) (after client (fetch_request fileId) s) \<longrightarrow>
      (''Error deleting file from storage:'',
       error (reply client (remove_request spath) (after client (fetch_request fileId) s)))
        \<in> set (console (snd (deletePatientFile client fileId s))) \<and>
      fst (deletePatientFile client fileId s) =
        Inr (JBool (\<not> fails client (delete_request fileId)
               (after client (remove_request spath) (after client (fetch_request fileId) s))))"
  by (simp add: deletePatientFile_fetch_ok Let_def fails_def)

lemma deletePatientFile_delete_error:
  "\<not> fails client (fetch_request fileId) s \<and>
    get_prop (data (reply client (fetch_request fileId) s)) ''storage_path'' = Inr spath \<and>
    fails client (delete_request fileId)
      (after client (remove_request spath) (after client (fetch_request fileId) s)) \<longrightarrow>
      fst (deletePatientFile client fileId s) = Inr (JBool False) \<and>
      last (console (snd (deletePatientFile client fileId s))) =
        (''Error deleting file metadata:'',
         error (reply client (delete_request fileId)
           (after client (remove_request spath) (after client (fetch_request fileId) s))))"
  by (simp add: deletePatientFile_fetch_ok Let_def fails_def)

lemma getFileUrl_error:
  "fails client (getFileUrl_request storagePath) s \<and>
    data (reply client (getFileUrl_request storagePath) s) = JNull \<longrightarrow>
      fst (getFileUrl client storagePath s) = Inr JNull"
  by (simp add: getFileUrl_conv js_or_def)

text \<open>
  Claim C1 as stated (every remote-call error is logged and turned into the empty
  value, in particular at the increment call inside addMedicalHistory and at the
  signed-URL request inside getFileUrl) fails at the two calls it singles out: the
  response of the increment call is dropped, so its error is not logged and the result
  is the inserted row, not null; getFileUrl reads only the data of its response, so the
  error is not logged.
\<close>

theorem remote_errors_counterexample:
  "fails scripted (increment_request [(''patient_id'', JStr ''p1'')])
     (after scripted (addMedicalHistory_request [(''patient_id'', JStr ''p1'')])
        (start [ok (JObj [(''id'', JStr ''h1'')]), failed ''down''])) \<and>
   fst (addMedicalHistory scripted [(''patient_id'', JStr ''p1'')]
          (start [ok (JObj [(''id'', JStr ''h1'')]), failed ''down''])) \<noteq> Inr JNull \<and>
   console (snd (addMedicalHistory scripted [(''patient_id'', JStr ''p1'')]
          (start [ok (JObj [(''id'', JStr ''h1'')]), failed ''down'']))) = [] \<and>
   fails scripted (getFileUrl_request ''p1/17-x.pdf'') (start [failed ''down'']) \<and>
   console (snd (getFileUrl scripted ''p1/17-x.pdf'' (start [failed ''down'']))) = []"
  by (simp add: fails_def start_def addMedicalHistory_def getFileUrl_def await_conv)

text \<open>
  Claim C1, as amended. No operation rejects because a remote call reported an error.
  Every error that the code tests is written to the diagnostic channel under the
  operation's message, and the operation resolves to its empty value: the empty array
  for the list operations, null for get, create, update and upload (for the upload and
  for the metadata insert that follows it), false for the deletions (for the fetch and
  for the row deletion of deletePatientFile). A failing storage removal inside
  deletePatientFile is logged, and the result is then decided by the row deletion. A
  failing increment inside addMedicalHistory leaves the result the inserted row. A
  failing signed-URL request, which carries no data, makes getFileUrl resolve to null.
\<close>

theorem remote_errors_handled:
  "(fails client getPatients_request s \<longrightarrow>
      logs_and_returns (getPatients client s) s ''Error fetching patients:''
        (error (reply client getPatients_request s)) (JArr [])) \<and>
   (fails client (getPatientById_request id') s \<longrightarrow>
      logs_and_returns (getPatientById client id' s) s ''Error fetching patient:''
        (error (reply client (getPatientById_request id') s)) JNull) \<and>
   (fails client (createPatient_request patient) s \<longrightarrow>
      logs_and_returns (createPatient client patient s) s ''Error creating patient:''
        (error (reply client (createPatient_request patient) s)) JNull) \<and>
   (fails client (updatePatient_request id' updates now) s \<longrightarrow>
      logs_and_returns (updatePatient client now id' updates s) s ''Error updating patient:''
        (error (reply client (updatePatient_request id' updates now) s)) JNull) \<and>
   (fails client (deletePatient_request id') s \<longrightarrow>
      logs_and_returns (deletePatient client id' s) s ''Error deleting patient:''
        (error (reply client (deletePatient_request id') s)) (JBool False)) \<and>
   (fails client (getMedicalHistory_request patientId) s \<longrightarrow>
      logs_and_returns (getMedicalHistory client patientId s) s ''Error fetching medical history:''
        (error (reply client (getMedicalHistory_request patientId) s)) (JArr [])) \<and>
   (fails client (addMedicalHistory_request history) s \<longrightarrow>
      logs_and_returns (addMedicalHistory client history s) s ''Error adding medical history:''
        (error (reply client (addMedicalHistory_request history) s)) JNull) \<and>
   (\<not> fails client (addMedicalHistory_request history) s \<and>
    fails client (increment_request history)
      (after client (addMedicalHistory_request history) s) \<longrightarrow>
      fst (addMedicalHistory client history s) =
        Inr (data (reply client (addMedicalHistory_request history) s))) \<and>
   (fails client getAppointments_request s \<longrightarrow>
      logs_and_returns (getAppointments client s) s ''Error fetching appointments:''
        (error (reply client getAppointments_request s)) (JArr [])) \<and>
   (fails client (createAppointment_request appointment) s \<longrightarrow>
      logs_and_returns (createAppointment client appointment s) s ''Error creating appointment:''
        (error (reply client (createAppointment_request appointment) s)) JNull) \<and>
   (fails client (updateAppointment_request id' updates now) s \<longrightarrow>
      logs_and_returns (updateAppointment client now id' updates s) s ''Error updating appointment:''
        (error (reply client (updateAppointment_request id' updates now) s)) JNull) \<and>
   (fails client (deleteAppointment_request id') s \<longrightarrow>
      logs_and_returns (deleteAppointment client id' s) s ''Error deleting appointment:''
        (error (reply client (deleteAppointment_request id') s)) (JBool False)) \<and>
   (fails client (getPatientFiles_request patientId) s \<longrightarrow>
      logs_and_returns (getPatientFiles client patientId s) s ''Error fetching patient files:''
        (error (reply client (getPatientFiles_request patientId) s)) (JArr [])) \<and>
   (fails client (upload_request patientId now_ms file) s \<longrightarrow>
      logs_and_returns (uploadPatientFile client now_ms patientId file s) s ''Error uploading file:''
        (error (reply client (upload_request patientId now_ms file) s)) JNull) \<and>
   (\<not> fails client (upload_request patientId now_ms file) s \<and>
    get_prop (data (reply client (upload_request patientId now_ms file) s)) ''path'' = Inr path \<and>
    fails client (metadata_request patientId file path)
      (after client (upload_request patientId now_ms file) s) \<longrightarrow>
      logs_and_returns (uploadPatientFile client now_ms patientId file s) s
        ''Error saving file metadata:''
        (error (reply client (metadata_request patientId file path)
           (after client (upload_request patientId now_ms file) s))) JNull) \<and>
   (fails client (fetch_request fileId) s \<longrightarrow>
      logs_and_returns (deletePatientFile client fileId s) s ''Error fetching file info:''
        (error (reply client (fetch_request fileId) s)) (JBool False)) \<and>
   (\<not> fails client (fetch_request fileId) s \<and>
    get_prop (data (reply client (fetch_request fileId) s)) ''storage_path'' = Inr spath \<and>
    fails client (remove_request spath) (after client (fetch_request fileId) s) \<longrightarrow>
      (''Error deleting file from storage:'',
       error (reply client (remove_request spath) (after client (fetch_request fileId) s)))
        \<in> set (console (snd (deletePatientFile client fileId s))) \<and>
      fst (deletePatientFile client fileId s) =
        Inr (JBool (\<not> fails client (delete_request fileId)
               (after client (remove_request spath) (after client (fetch_request fileId) s))))) \<and>
   (\<not> fails client (fetch_request fileId) s \<and>
    get_prop (data (reply client (fetch_request fileId) s)) ''storage_path'' = Inr spath \<and>
    fails client (delete_request fileId)
      (after client (remove_request spath) (after client (fetch_request fileId) s)) \<longrightarrow>
      fst (deletePatientFile client fileId s) = Inr (JBool False) \<and>
      last (console (snd (deletePatientFile client fileId s))) =
        (''Error deleting file metadata:'',
         error (reply client (delete_request fileId)
           (after client (remove_request spath) (after client (fetch_request fileId) s))))) \<and>
   (fails client (getFileUrl_request storagePath) s \<and>
    data (reply client (getFileUrl_request storagePath) s) = JNull \<longrightarrow>
      fst (getFileUrl client storagePath s) = Inr JNull)"
  by (intro conjI)
    (rule getPatients_error
       getPatientById_error
       createPatient_error
       updatePatient_error
       deletePatient_error
       getMedicalHistory_error
       addMedicalHistory_error
       addMedicalHistory_increment_error
       getAppointments_error
       createAppointment_error
       updateAppointment_error
       deleteAppointment_error
       getPatientFiles_error
       uploadPatientFile_upload_error
       uploadPatientFile_metadata_error
       deletePatientFile_fetch_error
       deletePatientFile_remove_error
       deletePatientFile_delete_error
       getFileUrl_error)+



theorem remote_errors_handled_witness:
  "fst (getPatients scripted (start [failed ''down''])) = Inr (JArr []) \<and>
   fst (getPatientById scripted ''p1'' (start [failed ''down''])) = Inr JNull \<and>
   fst (createPatient scripted [(''name'', JStr ''Ana Ruiz'')] (start [failed ''down''])) = Inr JNull \<and>
   fst (updatePatient scripted ''2024-05-01T10:00:00.000Z'' ''p1'' [(''phone'', JStr ''555'')]
          (start [failed ''down''])) = Inr JNull \<and>
   fst (deletePatient scripted ''p1'' (start [failed ''down''])) = Inr (JBool False) \<and>
   console (snd (deletePatient scripted ''p1'' (start [failed ''down'']))) =
     [(''Error deleting patient:'', JObj [(''message'', JStr ''down'')])] \<and>
   fst (getMedicalHistory scripted ''p1'' (start [failed ''down''])) = Inr (JArr []) \<and>
   fst (addMedicalHistory scripted [(''patient_id'', JStr ''p1'')] (start [failed ''down''])) =
     Inr JNull \<and>
   fst (getAppointments scripted (start [failed ''down''])) = Inr (JArr []) \<and>
   fst (createAppointment scripted [(''patient_id'', JStr ''p1'')] (start [failed ''down''])) =
     Inr JNull \<and>
   fst (updateAppointment scripted ''2024-05-01T10:00:00.000Z'' ''p1'' [(''phone'', JStr ''555'')]
          (start [failed ''down''])) = Inr JNull \<and>
   fst (deleteAppointment scripted ''p1'' (start [failed ''down''])) = Inr (JBool False) \<and>
   fst (getPatientFiles scripted ''p1'' (start [failed ''down''])) = Inr (JArr []) \<and>
   fst (uploadPatientFile scripted 17 ''p1''
          \<lparr>file_name = ''x.pdf'', file_type = ''application/pdf'', file_size = 3,
             file_bytes = [37, 80, 68]\<rparr> (start [failed ''down''])) = Inr JNull \<and>
   fst (deletePatientFile scripted ''f1'' (start [failed ''down''])) = Inr (JBool False) \<and>
   fst (getFileUrl scripted ''p1/17-x.pdf'' (start [failed ''down''])) = Inr JNull \<and>
   fst (addMedicalHistory scripted [(''patient_id'', JStr ''p1'')]
          (start [ok (JObj [(''path'', JStr ''p1/17-x.pdf''),
                            (''storage_path'', JStr ''p1/17-x.pdf'')]), failed ''down''])) =
     Inr (JObj [(''path'', JStr ''p1/17-x.pdf''), (''storage_path'', JStr ''p1/17-x.pdf'')]) \<and>
   fst (uploadPatientFile scripted 17 ''p1''
          \<lparr>file_name = ''x.pdf'', file_type = ''application/pdf'', file_size = 3,
             file_bytes = [37, 80, 68]\<rparr>
          (start [ok (JObj [(''path'', JStr ''p1/17-x.pdf''),
                            (''storage_path'', JStr ''p1/17-x.pdf'')]), failed ''down''])) =
     Inr JNull \<and>
   fst (deletePatientFile scripted ''f1''
          (start [ok (JObj [(''path'', JStr ''p1/17-x.pdf''),
                            (''storage_path'', JStr ''p1/17-x.pdf'')]), failed ''down''])) =
     Inr (JBool True) \<and>
   (''Error deleting file from storage:'', JObj [(''message'', JStr ''down'')]) \<in>
     set (console (snd (deletePatientFile scripted ''f1''
          (start [ok (JObj [(''path'', JStr ''p1/17-x.pdf''),
                            (''storage_path'', JStr ''p1/17-x.pdf'')]), failed ''down''])))) \<and>
   fst (deletePatientFile scripted ''f1''
          (start [ok (JObj [(''path'', JStr ''p1/17-x.pdf''),
                            (''storage_path'', JStr ''p1/17-x.pdf'')]), ok JNull,
                  failed ''down''])) =
     Inr (JBool False)"
proof -
  let ?f = "\<lparr>file_name = ''x.pdf'', file_type = ''application/pdf'', file_size = 3,
              file_bytes = [37, 80, 68]\<rparr>"
  let ?row = "JObj [(''path'', JStr ''p1/17-x.pdf''), (''storage_path'', JStr ''p1/17-x.pdf'')]"
  have e: "error (failed ''down'') = JObj [(''message'', JStr ''down'')]"
    by (simp add: failed_def)
  note A = remote_errors_handled [of scripted "start [failed ''down'']" "''p1''"
      "[(''name'', JStr ''Ana Ruiz'')]" "[(''phone'', JStr ''555'')]"
      "''2024-05-01T10:00:00.000Z''" "''p1''" "[(''patient_id'', JStr ''p1'')]"
      "[(''patient_id'', JStr ''p1'')]" 17 ?f "JStr ''p1/17-x.pdf''" "''f1''"
      "JStr ''p1/17-x.pdf''" "''p1/17-x.pdf''"]
  note B = remote_errors_handled [of scripted "start [ok ?row, failed ''down'']" "''p1''"
      "[(''name'', JStr ''Ana Ruiz'')]" "[(''phone'', JStr ''555'')]"
      "''2024-05-01T10:00:00.000Z''" "''p1''" "[(''patient_id'', JStr ''p1'')]"
      "[(''patient_id'', JStr ''p1'')]" 17 ?f "JStr ''p1/17-x.pdf''" "''f1''"
      "JStr ''p1/17-x.pdf''" "''p1/17-x.pdf''"]
  note C = remote_errors_handled [of scripted "start [ok ?row, ok JNull, failed ''down'']" "''p1''"
      "[(''name'', JStr ''Ana Ruiz'')]" "[(''phone'', JStr ''555'')]"
      "''2024-05-01T10:00:00.000Z''" "''p1''" "[(''patient_id'', JStr ''p1'')]"
      "[(''patient_id'', JStr ''p1'')]" 17 ?f "JStr ''p1/17-x.pdf''" "''f1''"
      "JStr ''p1/17-x.pdf''" "''p1/17-x.pdf''"]
  have a: "fst (getPatients scripted (start [failed ''down''])) = Inr (JArr []) \<and>
   fst (getPatientById scripted ''p1'' (start [failed ''down''])) = Inr JNull \<and>
   fst (createPatient scripted [(''name'', JStr ''Ana Ruiz'')] (start [failed ''down''])) = Inr JNull \<and>
   fst (updatePatient scripted ''2024-05-01T10:00:00.000Z'' ''p1'' [(''phone'', JStr ''555'')]
          (start [failed ''down''])) = Inr JNull \<and>
   fst (deletePatient scripted ''p1'' (start [failed ''down''])) = Inr (JBool False) \<and>
   console (snd (deletePatient scripted ''p1'' (start [failed ''down'']))) =
     [(''Error deleting patient:'', JObj [(''message'', JStr ''down'')])] \<and>
   fst (getMedicalHistory scripted ''p1'' (start [failed ''down''])) = Inr (JArr []) \<and>
   fst (addMedicalHistory scripted [(''patient_id'', JStr ''p1'')] (start [failed ''down''])) =
     Inr JNull \<and>
   fst (getAppointments scripted (start [failed ''down''])) = Inr (JArr []) \<and>
   fst (createAppointment scripted [(''patient_id'', JStr ''p1'')] (start [failed ''down''])) =
     Inr JNull \<and>
   fst (updateAppointment scripted ''2024-05-01T10:00:00.000Z'' ''p1'' [(''phone'', JStr ''555'')]
          (start [failed ''down''])) = Inr JNull \<and>
   fst (deleteAppointment scripted ''p1'' (start [failed ''down''])) = Inr (JBool False) \<and>
   fst (getPatientFiles scripted ''p1'' (start [failed ''down''])) = Inr (JArr []) \<and>
   fst (uploadPatientFile scripted 17 ''p1'' ?f (start [failed ''down''])) = Inr JNull \<and>
   fst (deletePatientFile scripted ''f1'' (start [failed ''down''])) = Inr (JBool False) \<and>
   fst (getFileUrl scripted ''p1/17-x.pdf'' (start [failed ''down''])) = Inr JNull"
    using A e by (simp add: fails_def logs_and_returns_def start_def)
  have b: "fst (addMedicalHistory scripted [(''patient_id'', JStr ''p1'')]
          (start [ok ?row, failed ''down''])) = Inr ?row \<and>
   fst (uploadPatientFile scripted 17 ''p1'' ?f (start [ok ?row, failed ''down''])) = Inr JNull \<and>
   fst (deletePatientFile scripted ''f1'' (start [ok ?row, failed ''down''])) = Inr (JBool True) \<and>
   (''Error deleting file from storage:'', JObj [(''message'', JStr ''down'')]) \<in>
     set (console (snd (deletePatientFile scripted ''f1'' (start [ok ?row, failed ''down'']))))"
    using B e by (simp add: fails_def logs_and_returns_def start_def obj_get_def)
  have c: "fst (deletePatientFile scripted ''f1'' (start [ok ?row, ok JNull, failed ''down''])) =
     Inr (JBool False)"
    using C by (simp add: fails_def logs_and_returns_def start_def obj_get_def)
  from a b c show ?thesis
    by simp
qed

end
